theory Spec2Isabelle
  imports Main
begin

section \<open>Python values used by the instrumentation\<close>

text \<open>
  Exceptions are values. The type \<open>exn\<close> stands for instances of Python's
  \<open>Exception\<close> class, which is what \<open>except Exception\<close> catches.
\<close>

datatype exn = AttributeError string | Error string

datatype attr_value = AStr string | AInt int

datatype span_kind = INTERNAL | SERVER | CLIENT | PRODUCER | CONSUMER

section \<open>The tracing collaborator\<close>

text \<open>
  A span has a name, a kind, attributes, the id of its parent (the span that was
  current when it was started) and an end marker. \<open>set_attribute\<close> stores a value
  under a key.
\<close>

record span =
  span_id :: nat
  parent_id :: "nat option"
  span_name :: string
  kind :: span_kind
  attributes :: "string \<rightharpoonup> attr_value"
  ended :: bool

definition set_attribute :: "span \<Rightarrow> string \<Rightarrow> attr_value \<Rightarrow> span" where
  "set_attribute sp key val = sp\<lparr>attributes := (attributes sp)(key \<mapsto> val)\<rparr>"

text \<open>
  The state of the tracing SDK: the id for the next span, the current span of the
  context, and the spans that have ended, in the order in which they ended.
\<close>

record trace_state =
  next_id :: nat
  current :: "nat option"
  finished :: "span list"

datatype instrumentation_info = InstrumentationInfo (info_name: string) (info_version: string)

text \<open>
  A tracer handle. The SDK's tracer carries \<open>instrumentation_info\<close>; a handle without
  that attribute is \<open>None\<close>, and reading it raises \<open>AttributeError\<close>.
\<close>

record tracer =
  instrumentation_info :: "instrumentation_info option"

type_synonym tracer_provider = "string \<Rightarrow> string \<Rightarrow> tracer"

definition get_tracer :: "tracer_provider \<Rightarrow> string \<Rightarrow> string \<Rightarrow> tracer_provider option \<Rightarrow> tracer" where
  "get_tracer global_provider name version tracer_provider =
     (case tracer_provider of
        None \<Rightarrow> global_provider name version
      | Some provider \<Rightarrow> provider name version)"

text \<open>
  \<open>start_as_current_span\<close> is a scoped resource. Entering it starts a span whose
  parent is the current span and makes it current; leaving it, on a normal return or on
  an exception, ends the span and restores the context that was current before.
\<close>

definition start_as_current_span ::
  "string \<Rightarrow> span_kind \<Rightarrow> (string \<rightharpoonup> attr_value) \<Rightarrow> trace_state \<Rightarrow> span \<times> trace_state" where
  "start_as_current_span name k attrs st =
     (\<lparr>span_id = next_id st, parent_id = current st, span_name = name, kind = k,
       attributes = attrs, ended = False\<rparr>,
      st\<lparr>next_id := Suc (next_id st), current := Some (next_id st)\<rparr>)"

definition exit_span :: "span \<Rightarrow> trace_state \<Rightarrow> trace_state" where
  "exit_span sp st =
     st\<lparr>current := parent_id sp, finished := finished st @ [sp\<lparr>ended := True\<rparr>]\<rparr>"

section \<open>The environment of the module\<close>

text \<open>
  What the module imports and does not define: the methods of the cache client, by
  name, the two helpers of the \<open>util\<close> module, the version string and the global
  tracer provider. The helpers may raise.

  A method of the client is arbitrary code that runs inside the span of its wrapper. It
  has an outcome, a value or an exception (\<open>impl\<close>), and it may itself record spans,
  for instance by calling other commands of the client that are instrumented too:
  \<open>impl_trace\<close> is what it does to the tracing state it is run in.
\<close>

record ('i, 'a, 'k, 'v) env =
  impl :: "string \<Rightarrow> 'i \<Rightarrow> 'a \<Rightarrow> 'k \<Rightarrow> exn + 'v"
  impl_trace :: "string \<Rightarrow> 'i \<Rightarrow> 'a \<Rightarrow> 'k \<Rightarrow> trace_state \<Rightarrow> trace_state"
  get_query_string :: "'a \<Rightarrow> exn + string"
  get_address_attributes :: "'i \<Rightarrow> exn + (string \<times> attr_value) list"
  version :: string
  global_tracer_provider :: tracer_provider

section \<open>Module constants\<close>

definition DEFAULT_SERVICE :: string where
  "DEFAULT_SERVICE = ''memcached''"

definition RAWCMD :: string where
  "RAWCMD = ''db.statement''"

definition CMD :: string where
  "CMD = ''memcached.command''"

definition this_module :: string where
  "this_module = ''opentelemetry.ext.pymemcache''"

definition COMMANDS :: "string list" where
  "COMMANDS =
     [''set'', ''set_many'', ''add'', ''replace'', ''append'', ''prepend'', ''cas'',
      ''get'', ''get_many'', ''gets'', ''gets_many'', ''delete'', ''delete_many'',
      ''incr'', ''decr'', ''touch'', ''stats'', ''version'', ''flush_all'', ''quit'',
      ''set_multi'', ''get_multi'']"

section \<open>Callables\<close>

text \<open>
  What can sit in the client type's method table: a plain function of the client, or a
  \<open>wrapt\<close> function wrapper around a callable. The wrapper of this module is the
  closure \<open>_wrap_cmd(tracer, cmd)\<close>, so a wrapper is its wrapped callable together with
  the tracer and the command name the closure captured.
\<close>

datatype callable =
  Function string
| FunctionWrapper callable tracer string

fun hasattr_wrapped :: "callable \<Rightarrow> bool" where
  "hasattr_wrapped (Function f) = False"
| "hasattr_wrapped (FunctionWrapper wrapped t c) = True"

fun isinstance_ObjectProxy :: "callable \<Rightarrow> bool" where
  "isinstance_ObjectProxy (Function f) = False"
| "isinstance_ObjectProxy (FunctionWrapper wrapped t c) = True"

text \<open>The attribute \<open>__wrapped__\<close>; the code reads it only where \<open>hasattr\<close> holds.\<close>

fun get_wrapped :: "callable \<Rightarrow> callable" where
  "get_wrapped (FunctionWrapper wrapped t c) = wrapped"
| "get_wrapped (Function f) = Function f"

text \<open>How many wrappers are stacked, the client function under them, and the tracer
  and command name captured by the innermost wrapper.\<close>

fun layers :: "callable \<Rightarrow> nat" where
  "layers (Function f) = 0"
| "layers (FunctionWrapper wrapped t c) = Suc (layers wrapped)"

fun origin :: "callable \<Rightarrow> string" where
  "origin (Function f) = f"
| "origin (FunctionWrapper wrapped t c) = origin wrapped"

fun inner_tracer :: "callable \<Rightarrow> tracer option" where
  "inner_tracer (Function f) = None"
| "inner_tracer (FunctionWrapper wrapped t c) =
     (case wrapped of Function f \<Rightarrow> Some t | FunctionWrapper w t' c' \<Rightarrow> inner_tracer wrapped)"

fun inner_cmd :: "callable \<Rightarrow> string option" where
  "inner_cmd (Function f) = None"
| "inner_cmd (FunctionWrapper wrapped t c) =
     (case wrapped of Function f \<Rightarrow> Some c | FunctionWrapper w t' c' \<Rightarrow> inner_cmd wrapped)"

text \<open>
  The object a wrapper receives as \<open>wrapped\<close>: whether it has the attribute
  \<open>__wrapped__\<close>, and what calling it does.
\<close>

record ('a, 'k, 'v) wrapped_obj =
  has_wrapped :: bool
  invoke :: "'a \<Rightarrow> 'k \<Rightarrow> trace_state \<Rightarrow> (exn + 'v) \<times> trace_state"

section \<open>The wrapper\<close>

definition set_connection_attributes ::
  "('i, 'a, 'k, 'v) env \<Rightarrow> span \<Rightarrow> 'i \<Rightarrow> (exn + unit) \<times> span" where
  "set_connection_attributes e sp inst =
     (case get_address_attributes e inst of
        Inl x \<Rightarrow> (Inl x, sp)
      | Inr items \<Rightarrow> (Inr (), fold (\<lambda>(key, val) s. set_attribute s key val) items sp))"

text \<open>The body of the \<open>try\<close> block of \<open>_wrap_cmd\<close>: the span as far as it was filled,
  and the exception that stopped it, if any.\<close>

definition populate ::
  "('i, 'a, 'k, 'v) env \<Rightarrow> tracer \<Rightarrow> string \<Rightarrow> 'i \<Rightarrow> 'a \<Rightarrow> span \<Rightarrow> (exn + unit) \<times> span" where
  "populate e t cmd inst args sp =
     (case instrumentation_info t of
        None \<Rightarrow> (Inl (AttributeError ''instrumentation_info''), sp)
      | Some info \<Rightarrow>
          (let sp1 = set_attribute sp ''service'' (AStr (info_name info)) in
           case get_query_string e args of
             Inl x \<Rightarrow> (Inl x, sp1)
           | Inr vals \<Rightarrow>
               (let query = cmd @ (if vals \<noteq> [] then '' '' else []) @ vals;
                    sp2 = set_attribute sp1 RAWCMD (AStr query)
                in set_connection_attributes e sp2 inst)))"

definition wrap_cmd_func ::
  "('i, 'a, 'k, 'v) env \<Rightarrow> tracer \<Rightarrow> string \<Rightarrow> ('a, 'k, 'v) wrapped_obj \<Rightarrow> 'i \<Rightarrow> 'a \<Rightarrow> 'k
     \<Rightarrow> trace_state \<Rightarrow> (exn + 'v) \<times> trace_state" where
  "wrap_cmd_func e t cmd wrapped inst args kwargs st =
     (let (sp, st1) = start_as_current_span CMD INTERNAL Map.empty st;
          sp' = snd (populate e t cmd inst args sp);
          (res, st2) = invoke wrapped args kwargs st1
      in (res, exit_span sp' st2))"

definition with_tracer_wrapper ::
  "(tracer \<Rightarrow> string \<Rightarrow> ('a, 'k, 'v) wrapped_obj \<Rightarrow> 'i \<Rightarrow> 'a \<Rightarrow> 'k
      \<Rightarrow> trace_state \<Rightarrow> (exn + 'v) \<times> trace_state)
   \<Rightarrow> tracer \<Rightarrow> string \<Rightarrow> ('a, 'k, 'v) wrapped_obj \<Rightarrow> 'i \<Rightarrow> 'a \<Rightarrow> 'k
      \<Rightarrow> trace_state \<Rightarrow> (exn + 'v) \<times> trace_state" where
  "with_tracer_wrapper func t cmd wrapped inst args kwargs st =
     (if has_wrapped wrapped then invoke wrapped args kwargs st
      else func t cmd wrapped inst args kwargs st)"

definition wrap_cmd ::
  "('i, 'a, 'k, 'v) env \<Rightarrow> tracer \<Rightarrow> string \<Rightarrow> ('a, 'k, 'v) wrapped_obj \<Rightarrow> 'i \<Rightarrow> 'a \<Rightarrow> 'k
     \<Rightarrow> trace_state \<Rightarrow> (exn + 'v) \<times> trace_state" where
  "wrap_cmd e = with_tracer_wrapper (wrap_cmd_func e)"

text \<open>
  Calling what is installed. A plain function is the client's method, with its outcome
  and its own effect on the tracing state; a function wrapper calls its wrapper closure
  with the wrapped callable bound to the instance.
\<close>

primrec call ::
  "callable \<Rightarrow> ('i, 'a, 'k, 'v) env \<Rightarrow> 'i \<Rightarrow> 'a \<Rightarrow> 'k \<Rightarrow> trace_state
     \<Rightarrow> (exn + 'v) \<times> trace_state" where
  "call (Function f) e inst args kwargs st =
     (impl e f inst args kwargs, impl_trace e f inst args kwargs st)"
| "call (FunctionWrapper wrapped t cmd) e inst args kwargs st =
     wrap_cmd e t cmd
       \<lparr>has_wrapped = hasattr_wrapped wrapped, invoke = call wrapped e inst\<rparr>
       inst args kwargs st"

section \<open>Installing and removing the wrappers\<close>

type_synonym table = "string \<rightharpoonup> callable"

text \<open>
  \<open>wrapt.wrap_function_wrapper\<close> on an attribute of the client type: it reads the
  attribute (\<open>AttributeError\<close> when there is none) and installs a function wrapper
  around what it read.
\<close>

definition wrap_function_wrapper :: "string \<Rightarrow> tracer \<Rightarrow> string \<Rightarrow> table \<Rightarrow> (exn + unit) \<times> table" where
  "wrap_function_wrapper attr t cmd tbl =
     (case tbl attr of
        None \<Rightarrow> (Inl (AttributeError attr), tbl)
      | Some original \<Rightarrow> (Inr (), tbl(attr \<mapsto> FunctionWrapper original t cmd)))"

definition unwrap :: "table \<Rightarrow> string \<Rightarrow> table" where
  "unwrap obj attr =
     (case obj attr of
        None \<Rightarrow> obj
      | Some func \<Rightarrow>
          if isinstance_ObjectProxy func \<and> hasattr_wrapped func
          then obj(attr \<mapsto> get_wrapped func)
          else obj)"

fun instrument_loop :: "tracer \<Rightarrow> string list \<Rightarrow> table \<Rightarrow> (exn + unit) \<times> table" where
  "instrument_loop t [] tbl = (Inr (), tbl)"
| "instrument_loop t (cmd # cmds) tbl =
     (case wrap_function_wrapper cmd t cmd tbl of
        (Inl x, tbl') \<Rightarrow> (Inl x, tbl')
      | (Inr u, tbl') \<Rightarrow> instrument_loop t cmds tbl')"

definition instrument ::
  "('i, 'a, 'k, 'v) env \<Rightarrow> tracer_provider option \<Rightarrow> table \<Rightarrow> (exn + unit) \<times> table" where
  "instrument e tracer_provider tbl =
     (let t = get_tracer (global_tracer_provider e) this_module (version e) tracer_provider
      in instrument_loop t COMMANDS tbl)"

definition uninstrument :: "table \<Rightarrow> table" where
  "uninstrument tbl = fold (\<lambda>command obj. unwrap obj command) COMMANDS tbl"

section \<open>The client type and the life cycle of the instrumentation\<close>

text \<open>The method table of the cache client before any instrumentation: every command is
  a plain function.\<close>

definition pymemcache_Client :: table where
  "pymemcache_Client = (\<lambda>attr. if attr \<in> set COMMANDS then Some (Function attr) else None)"

datatype op = Activate "tracer_provider option" | Deactivate

fun run_ops :: "('i, 'a, 'k, 'v) env \<Rightarrow> op list \<Rightarrow> table \<Rightarrow> (exn + unit) \<times> table" where
  "run_ops e [] tbl = (Inr (), tbl)"
| "run_ops e (Activate p # ops) tbl =
     (case instrument e p tbl of
        (Inl x, tbl') \<Rightarrow> (Inl x, tbl')
      | (Inr u, tbl') \<Rightarrow> run_ops e ops tbl')"
| "run_ops e (Deactivate # ops) tbl = run_ops e ops (uninstrument tbl)"

fun depth_after :: "op list \<Rightarrow> nat \<Rightarrow> nat" where
  "depth_after [] n = n"
| "depth_after (Activate p # ops) n = depth_after ops (Suc n)"
| "depth_after (Deactivate # ops) n = depth_after ops (n - 1)"

text \<open>The span a wrapper with tracer \<open>t\<close> and command \<open>cmd\<close> records for a call that
  starts in state \<open>st\<close>.\<close>

definition recorded_span ::
  "('i, 'a, 'k, 'v) env \<Rightarrow> tracer \<Rightarrow> string \<Rightarrow> 'i \<Rightarrow> 'a \<Rightarrow> trace_state \<Rightarrow> span" where
  "recorded_span e t cmd inst args st =
     (snd (populate e t cmd inst args (fst (start_as_current_span CMD INTERNAL Map.empty st))))
       \<lparr>ended := True\<rparr>"

text \<open>The tracing state after the client's method \<open>f\<close> has run inside a span that
  was started in state \<open>st\<close>.\<close>

definition client_in_span ::
  "('i, 'a, 'k, 'v) env \<Rightarrow> string \<Rightarrow> 'i \<Rightarrow> 'a \<Rightarrow> 'k \<Rightarrow> trace_state \<Rightarrow> trace_state" where
  "client_in_span e f inst args kwargs st =
     impl_trace e f inst args kwargs
       (st\<lparr>next_id := Suc (next_id st), current := Some (next_id st)\<rparr>)"

text \<open>An SDK tracer provider: its tracers carry the name and version they were asked for.\<close>

definition sdk_provider :: tracer_provider where
  "sdk_provider name ver = \<lparr>instrumentation_info = Some (InstrumentationInfo name ver)\<rparr>"

text \<open>A provider whose tracer handles have no \<open>instrumentation_info\<close>.\<close>

definition bare_provider :: tracer_provider where
  "bare_provider name ver = \<lparr>instrumentation_info = None\<rparr>"

section \<open>A concrete client and tracing set-up\<close>

definition demo_instance :: "(string \<times> int) option" where
  "demo_instance = Some (''localhost'', 11211)"

definition demo_state :: trace_state where
  "demo_state = \<lparr>next_id = 0, current = None, finished = []\<rparr>"

definition demo_tracer :: tracer where
  "demo_tracer = sdk_provider this_module ''0.9.dev0''"

text \<open>
  A client whose \<open>get\<close>, \<open>delete\<close> and \<open>delete_many\<close> answer and whose other
  commands fail with a connection error; a query helper that renders the first argument
  and raises on an empty one; an address helper that raises when the client has no
  server configured. In \<open>leaf_env\<close> no method of the client records a span.
\<close>

definition leaf_env :: "((string \<times> int) option, string list, unit, string) env" where
  "leaf_env =
     \<lparr>impl = (\<lambda>f inst args kwargs.
         if f = ''get'' then Inr ''value''
         else if f = ''delete'' \<or> f = ''delete_many'' then Inr ''True''
         else Inl (Error ''connection refused'')),
      impl_trace = (\<lambda>f inst args kwargs st. st),
      get_query_string = (\<lambda>args.
         case args of
           [] \<Rightarrow> Inr []
         | a # as \<Rightarrow> if a = [] then Inl (Error ''unrenderable'') else Inr a),
      get_address_attributes = (\<lambda>inst.
         case inst of
           None \<Rightarrow> Inl (AttributeError ''server'')
         | Some (host, port) \<Rightarrow> Inr [(''net.peer.name'', AStr host), (''net.peer.port'', AInt port)]),
      version = ''0.9.dev0'',
      global_tracer_provider = sdk_provider\<rparr>"

text \<open>
  The same client, except that its \<open>delete_many\<close> is implemented by a call of the
  client's \<open>delete\<close>, which is instrumented: it records the span of that call.
\<close>

definition demo_env :: "((string \<times> int) option, string list, unit, string) env" where
  "demo_env =
     leaf_env\<lparr>impl_trace := (\<lambda>f inst args kwargs st.
        if f = ''delete_many''
        then snd (call (FunctionWrapper (Function ''delete'') demo_tracer ''delete'')
                    leaf_env inst args kwargs st)
        else st)\<rparr>"

section \<open>Spans and attributes\<close>

lemma set_attribute_simps:
  "span_id (set_attribute sp k v) = span_id sp"
  "parent_id (set_attribute sp k v) = parent_id sp"
  "span_name (set_attribute sp k v) = span_name sp"
  "kind (set_attribute sp k v) = kind sp"
  "ended (set_attribute sp k v) = ended sp"
  "attributes (set_attribute sp k v) = (attributes sp)(k \<mapsto> v)"
  by (simp_all add: set_attribute_def)

lemma fold_set_attribute_fixed:
  "span_id (fold (\<lambda>(key, val) s. set_attribute s key val) items sp) = span_id sp \<and>
   parent_id (fold (\<lambda>(key, val) s. set_attribute s key val) items sp) = parent_id sp \<and>
   span_name (fold (\<lambda>(key, val) s. set_attribute s key val) items sp) = span_name sp \<and>
   kind (fold (\<lambda>(key, val) s. set_attribute s key val) items sp) = kind sp \<and>
   ended (fold (\<lambda>(key, val) s. set_attribute s key val) items sp) = ended sp"
proof (induction items arbitrary: sp)
  case Nil
  show ?case by simp
next
  case (Cons a items)
  obtain k v where a: "a = (k, v)" by (cases a)
  show ?case using Cons[of "set_attribute sp k v"]
    by (simp add: a set_attribute_simps)
qed

lemma fold_set_attribute_other:
  "k \<notin> fst ` set items \<Longrightarrow>
   attributes (fold (\<lambda>(key, val) s. set_attribute s key val) items sp) k = attributes sp k"
proof (induction items arbitrary: sp)
  case Nil
  show ?case by simp
next
  case (Cons a items)
  obtain k' v where a: "a = (k', v)" by (cases a)
  from Cons.prems have "k \<noteq> k'" and "k \<notin> fst ` set items" by (auto simp: a)
  then show ?case using Cons.IH[of "set_attribute sp k' v"]
    by (simp add: a set_attribute_simps)
qed

lemma fold_set_attribute_dom:
  "dom (attributes (fold (\<lambda>(key, val) s. set_attribute s key val) items sp))
     = dom (attributes sp) \<union> fst ` set items"
proof (induction items arbitrary: sp)
  case Nil
  show ?case by simp
next
  case (Cons a items)
  obtain k' v where a: "a = (k', v)" by (cases a)
  have "dom (attributes (set_attribute sp k' v)) = insert k' (dom (attributes sp))"
    by (simp only: set_attribute_simps dom_fun_upd) simp
  with Cons.IH[of "set_attribute sp k' v"] show ?case
    by (simp add: a)
qed

lemma set_connection_attributes_fixed:
  "span_id (snd (set_connection_attributes e sp inst)) = span_id sp \<and>
   parent_id (snd (set_connection_attributes e sp inst)) = parent_id sp \<and>
   span_name (snd (set_connection_attributes e sp inst)) = span_name sp \<and>
   kind (snd (set_connection_attributes e sp inst)) = kind sp \<and>
   ended (snd (set_connection_attributes e sp inst)) = ended sp"
proof (cases "get_address_attributes e inst")
  case (Inl x)
  then show ?thesis by (simp add: set_connection_attributes_def)
next
  case (Inr items)
  then show ?thesis
    using fold_set_attribute_fixed[of items sp] by (simp add: set_connection_attributes_def)
qed

lemma populate_fixed:
  "span_id (snd (populate e t cmd inst args sp)) = span_id sp \<and>
   parent_id (snd (populate e t cmd inst args sp)) = parent_id sp \<and>
   span_name (snd (populate e t cmd inst args sp)) = span_name sp \<and>
   kind (snd (populate e t cmd inst args sp)) = kind sp \<and>
   ended (snd (populate e t cmd inst args sp)) = ended sp"
proof (cases "instrumentation_info t")
  case None
  then show ?thesis by (simp add: populate_def)
next
  case (Some info)
  show ?thesis
  proof (cases "get_query_string e args")
    case (Inl x)
    with Some show ?thesis by (simp add: populate_def set_attribute_simps)
  next
    case (Inr vals)
    with Some show ?thesis
      using set_connection_attributes_fixed[of e
          "set_attribute (set_attribute sp ''service'' (AStr (info_name info))) RAWCMD
             (AStr (cmd @ (if vals \<noteq> [] then '' '' else []) @ vals))" inst]
      by (simp add: populate_def set_attribute_simps)
  qed
qed

lemma recorded_span_fixed:
  "span_id (recorded_span e t cmd inst args st) = next_id st"
  "parent_id (recorded_span e t cmd inst args st) = current st"
  "span_name (recorded_span e t cmd inst args st) = CMD"
  "kind (recorded_span e t cmd inst args st) = INTERNAL"
  "ended (recorded_span e t cmd inst args st)"
  using populate_fixed[of e t cmd inst args "fst (start_as_current_span CMD INTERNAL Map.empty st)"]
  by (simp_all add: recorded_span_def start_as_current_span_def)

lemma recorded_span_attributes:
  "attributes (recorded_span e t cmd inst args st)
     = attributes (snd (populate e t cmd inst args
         \<lparr>span_id = next_id st, parent_id = current st, span_name = CMD, kind = INTERNAL,
          attributes = Map.empty, ended = False\<rparr>))"
  by (simp add: recorded_span_def start_as_current_span_def)

lemma populate_raises:
  assumes "instrumentation_info t = None \<or> (\<exists>x. get_query_string e args = Inl x)
           \<or> (\<exists>x. get_address_attributes e inst = Inl x)"
  shows "\<exists>x. fst (populate e t cmd inst args sp) = Inl x"
proof (cases "instrumentation_info t")
  case None
  then show ?thesis by (simp add: populate_def)
next
  case (Some info)
  show ?thesis
  proof (cases "get_query_string e args")
    case (Inl x)
    with Some show ?thesis by (simp add: populate_def)
  next
    case (Inr vals)
    with Some assms obtain x where "get_address_attributes e inst = Inl x" by auto
    with Some Inr show ?thesis by (simp add: populate_def set_connection_attributes_def)
  qed
qed

lemma populate_attributes:
  assumes "instrumentation_info t = Some info"
      and "\<forall>items. get_address_attributes e inst = Inr items \<longrightarrow> key \<notin> fst ` set items"
  shows "attributes (snd (populate e t cmd inst args sp)) key =
           (case get_query_string e args of
              Inl x \<Rightarrow> ((attributes sp)(''service'' \<mapsto> AStr (info_name info))) key
            | Inr vals \<Rightarrow>
                ((attributes sp)(''service'' \<mapsto> AStr (info_name info),
                   RAWCMD \<mapsto> AStr (cmd @ (if vals \<noteq> [] then '' '' else []) @ vals))) key)"
proof (cases "get_query_string e args")
  case (Inl x)
  with assms(1) show ?thesis by (simp add: populate_def set_attribute_simps)
next
  case (Inr vals)
  let ?sp2 = "set_attribute (set_attribute sp ''service'' (AStr (info_name info))) RAWCMD
                (AStr (cmd @ (if vals \<noteq> [] then '' '' else []) @ vals))"
  have p: "populate e t cmd inst args sp = set_connection_attributes e ?sp2 inst"
    using assms(1) Inr by (simp add: populate_def)
  have "attributes (snd (set_connection_attributes e ?sp2 inst)) key = attributes ?sp2 key"
  proof (cases "get_address_attributes e inst")
    case (Inl y)
    then show ?thesis by (simp add: set_connection_attributes_def)
  next
    case inr: (Inr items)
    with assms(2) have "key \<notin> fst ` set items" by simp
    from fold_set_attribute_other[OF this, of ?sp2] inr show ?thesis
      by (simp add: set_connection_attributes_def)
  qed
  with p Inr show ?thesis by (simp add: set_attribute_simps)
qed

lemma populate_dom:
  "dom (attributes (snd (populate e t cmd inst args sp)))
     \<subseteq> dom (attributes sp) \<union> {''service'', RAWCMD}
         \<union> (case get_address_attributes e inst of Inl x \<Rightarrow> {} | Inr items \<Rightarrow> fst ` set items)"
proof (cases "instrumentation_info t")
  case None
  then have "snd (populate e t cmd inst args sp) = sp" by (simp add: populate_def)
  then show ?thesis by auto
next
  case (Some info)
  show ?thesis
  proof (cases "get_query_string e args")
    case (Inl x)
    with Some have "snd (populate e t cmd inst args sp)
                      = set_attribute sp ''service'' (AStr (info_name info))"
      by (simp add: populate_def)
    then show ?thesis by (auto simp: set_attribute_simps)
  next
    case (Inr vals)
    let ?sp2 = "set_attribute (set_attribute sp ''service'' (AStr (info_name info))) RAWCMD
                  (AStr (cmd @ (if vals \<noteq> [] then '' '' else []) @ vals))"
    have p: "populate e t cmd inst args sp = set_connection_attributes e ?sp2 inst"
      using Some Inr by (simp add: populate_def)
    have d2: "dom (attributes ?sp2) = dom (attributes sp) \<union> {''service'', RAWCMD}"
      by (auto simp: set_attribute_simps)
    show ?thesis
    proof (cases "get_address_attributes e inst")
      case (Inl y)
      then have "snd (populate e t cmd inst args sp) = ?sp2"
        by (simp add: p set_connection_attributes_def)
      with d2 Inl show ?thesis by auto
    next
      case inr: (Inr items)
      then have "snd (populate e t cmd inst args sp)
                   = fold (\<lambda>(key, val) s. set_attribute s key val) items ?sp2"
        by (simp add: p set_connection_attributes_def)
      with d2 fold_set_attribute_dom[of items ?sp2] inr show ?thesis by auto
    qed
  qed
qed

lemma populate_no_info:
  "instrumentation_info t = None \<Longrightarrow> snd (populate e t cmd inst args sp) = sp"
  by (simp add: populate_def)

section \<open>Calling a stack of wrappers\<close>

lemma call_delegates:
  "call (FunctionWrapper (FunctionWrapper w t' c') t c) e inst args kwargs st
     = call (FunctionWrapper w t' c') e inst args kwargs st"
  by (simp add: wrap_cmd_def with_tracer_wrapper_def)

lemma wrap_cmd_func_eq:
  "wrap_cmd_func e t cmd w inst args kwargs st
     = (fst (invoke w args kwargs
               (st\<lparr>next_id := Suc (next_id st), current := Some (next_id st)\<rparr>)),
        (snd (invoke w args kwargs
               (st\<lparr>next_id := Suc (next_id st), current := Some (next_id st)\<rparr>)))
          \<lparr>current := current st,
           finished :=
             finished (snd (invoke w args kwargs
                        (st\<lparr>next_id := Suc (next_id st), current := Some (next_id st)\<rparr>)))
             @ [recorded_span e t cmd inst args st]\<rparr>)"
proof -
  let ?sp0 = "fst (start_as_current_span CMD INTERNAL Map.empty st)"
  have p: "parent_id (snd (populate e t cmd inst args ?sp0)) = current st"
    using populate_fixed[of e t cmd inst args ?sp0] by (simp add: start_as_current_span_def)
  show ?thesis
    unfolding wrap_cmd_func_def recorded_span_def
    by (simp add: start_as_current_span_def exit_span_def split_beta
          p[unfolded start_as_current_span_def, simplified])
qed


lemma call_single:
  "call (FunctionWrapper (Function f) t cmd) e inst args kwargs st
     = (impl e f inst args kwargs,
        (client_in_span e f inst args kwargs st)
          \<lparr>current := current st,
           finished := finished (client_in_span e f inst args kwargs st)
                        @ [recorded_span e t cmd inst args st]\<rparr>)"
proof -
  have inv: "call (Function f) e inst
               = (\<lambda>a k s. (impl e f inst a k, impl_trace e f inst a k s))"
    by (intro ext) simp
  show ?thesis
    by (simp only: call.simps hasattr_wrapped.simps wrap_cmd_def with_tracer_wrapper_def inv
          wrapped_obj.simps if_False wrap_cmd_func_eq fst_conv snd_conv client_in_span_def)
qed

lemma call_wrapped:
  "hasattr_wrapped c \<Longrightarrow> \<exists>t cmd. inner_tracer c = Some t \<and> inner_cmd c = Some cmd \<and>
     call c e inst args kwargs st
       = (impl e (origin c) inst args kwargs,
          (client_in_span e (origin c) inst args kwargs st)
            \<lparr>current := current st,
             finished := finished (client_in_span e (origin c) inst args kwargs st)
                          @ [recorded_span e t cmd inst args st]\<rparr>)"
proof (induction c)
  case (Function f)
  then show ?case by simp
next
  case (FunctionWrapper w t c)
  show ?case
  proof (cases w)
    case (Function f)
    then show ?thesis by (simp only: call_single) simp
  next
    case inner: (FunctionWrapper w' t' c')
    then have "hasattr_wrapped w" by simp
    from FunctionWrapper.IH[OF this] obtain t0 cmd0 where
      h: "inner_tracer w = Some t0" "inner_cmd w = Some cmd0"
         "call w e inst args kwargs st
            = (impl e (origin w) inst args kwargs,
               (client_in_span e (origin w) inst args kwargs st)
                 \<lparr>current := current st,
                  finished := finished (client_in_span e (origin w) inst args kwargs st)
                               @ [recorded_span e t0 cmd0 inst args st]\<rparr>)"
      by blast
    have d: "call (FunctionWrapper w t c) e inst args kwargs st = call w e inst args kwargs st"
      unfolding inner by (rule call_delegates)
    have "inner_tracer (FunctionWrapper w t c) = Some t0"
         "inner_cmd (FunctionWrapper w t c) = Some cmd0"
         "origin (FunctionWrapper w t c) = origin w"
      using h(1,2) by (simp_all add: inner)
    with d h(3) show ?thesis by (simp only:) blast
  qed
qed

lemma call_plain:
  "\<not> hasattr_wrapped c \<Longrightarrow>
   call c e inst args kwargs st
     = (impl e (origin c) inst args kwargs, impl_trace e (origin c) inst args kwargs st)"
  by (cases c) simp_all

lemma call_result: "fst (call c e inst args kwargs st) = impl e (origin c) inst args kwargs"
proof (cases "hasattr_wrapped c")
  case True
  from call_wrapped[OF this, of e inst args kwargs st] show ?thesis by auto
next
  case False
  then show ?thesis by (simp add: call_plain)
qed

text \<open>
  A client method that calls an instrumented command: with \<open>delete_many\<close> and
  \<open>delete\<close> both wrapped, one call of \<open>delete_many\<close> records the span of \<open>delete\<close>
  as a child of its own span.
\<close>

lemma nested_spans_example:
  "map parent_id
     (finished (snd (call (FunctionWrapper (Function ''delete_many'') demo_tracer ''delete_many'')
                       demo_env demo_instance [''k''] () demo_state)))
   = [Some 0, None]"
proof -
  let ?st1 = "demo_state\<lparr>next_id := Suc (next_id demo_state),
                          current := Some (next_id demo_state)\<rparr>"
  have a: "client_in_span demo_env ''delete_many'' demo_instance [''k''] () demo_state
             = snd (call (FunctionWrapper (Function ''delete'') demo_tracer ''delete'')
                      leaf_env demo_instance [''k''] () ?st1)"
    by (simp add: client_in_span_def demo_env_def)
  have b: "client_in_span leaf_env ''delete'' demo_instance [''k''] () ?st1
             = ?st1\<lparr>next_id := Suc (next_id ?st1), current := Some (next_id ?st1)\<rparr>"
    by (simp add: client_in_span_def leaf_env_def)
  show ?thesis
    by (simp only: call_single a b snd_conv)
       (simp add: recorded_span_fixed demo_state_def)
qed

section \<open>The method table under activation and deactivation\<close>

lemma distinct_COMMANDS: "distinct COMMANDS"
  unfolding COMMANDS_def by simp

lemma instrument_loop_ok:
  "distinct cmds \<Longrightarrow> (\<forall>c \<in> set cmds. tbl c \<noteq> None) \<Longrightarrow>
   instrument_loop t cmds tbl
     = (Inr (), (\<lambda>k. if k \<in> set cmds then map_option (\<lambda>f. FunctionWrapper f t k) (tbl k)
                     else tbl k))"
proof (induction cmds arbitrary: tbl)
  case Nil
  show ?case by simp
next
  case (Cons cmd cmds)
  from Cons.prems obtain original where o: "tbl cmd = Some original" by auto
  let ?tbl' = "tbl(cmd \<mapsto> FunctionWrapper original t cmd)"
  have w: "wrap_function_wrapper cmd t cmd tbl = (Inr (), ?tbl')"
    by (simp add: wrap_function_wrapper_def o)
  from Cons.prems have d: "distinct cmds" and n: "cmd \<notin> set cmds" by simp_all
  from Cons.prems have "\<forall>c \<in> set cmds. ?tbl' c \<noteq> None" by simp
  from Cons.IH[OF d this] have
    "instrument_loop t cmds ?tbl'
       = (Inr (), (\<lambda>k. if k \<in> set cmds then map_option (\<lambda>f. FunctionWrapper f t k) (?tbl' k)
                       else ?tbl' k))" .
  moreover have
    "(\<lambda>k. if k \<in> set cmds then map_option (\<lambda>f. FunctionWrapper f t k) (?tbl' k) else ?tbl' k)
       = (\<lambda>k. if k \<in> set (cmd # cmds) then map_option (\<lambda>f. FunctionWrapper f t k) (tbl k)
               else tbl k)"
    using n o by (intro ext) auto
  ultimately show ?case by (simp add: w)
qed

lemma unwrap_eq:
  "unwrap obj attr = (\<lambda>k. if k = attr then map_option get_wrapped (obj k) else obj k)"
proof (cases "obj attr")
  case None
  then show ?thesis by (intro ext) (simp add: unwrap_def)
next
  case (Some func)
  then show ?thesis by (cases func; intro ext) (auto simp: unwrap_def)
qed

lemma fold_unwrap:
  "distinct cmds \<Longrightarrow>
   fold (\<lambda>command obj. unwrap obj command) cmds tbl
     = (\<lambda>k. if k \<in> set cmds then map_option get_wrapped (tbl k) else tbl k)"
proof (induction cmds arbitrary: tbl)
  case Nil
  show ?case by simp
next
  case (Cons cmd cmds)
  then have d: "distinct cmds" and n: "cmd \<notin> set cmds" by simp_all
  have "fold (\<lambda>command obj. unwrap obj command) (cmd # cmds) tbl
          = fold (\<lambda>command obj. unwrap obj command) cmds (unwrap tbl cmd)" by simp
  also have "\<dots> = (\<lambda>k. if k \<in> set cmds then map_option get_wrapped (unwrap tbl cmd k)
                         else unwrap tbl cmd k)"
    by (rule Cons.IH[OF d])
  also have "\<dots> = (\<lambda>k. if k \<in> set (cmd # cmds) then map_option get_wrapped (tbl k) else tbl k)"
    using n by (intro ext) (auto simp: unwrap_eq)
  finally show ?case .
qed

lemma uninstrument_eq:
  "uninstrument tbl = (\<lambda>k. if k \<in> set COMMANDS then map_option get_wrapped (tbl k) else tbl k)"
  unfolding uninstrument_def by (rule fold_unwrap[OF distinct_COMMANDS])

lemma instrument_eq:
  "(\<forall>c \<in> set COMMANDS. tbl c \<noteq> None) \<Longrightarrow>
   instrument e p tbl
     = (Inr (), (\<lambda>k. if k \<in> set COMMANDS
                     then map_option (\<lambda>f. FunctionWrapper f
                            (get_tracer (global_tracer_provider e) this_module (version e) p) k) (tbl k)
                     else tbl k))"
  unfolding instrument_def Let_def by (rule instrument_loop_ok[OF distinct_COMMANDS])

lemma layers_get_wrapped: "layers (get_wrapped f) = layers f - 1"
  by (cases f) simp_all

lemma origin_get_wrapped: "origin (get_wrapped f) = origin f"
  by (cases f) simp_all

lemma hasattr_wrapped_layers: "hasattr_wrapped f \<longleftrightarrow> 0 < layers f"
  by (cases f) simp_all

lemma instrument_inv:
  assumes "\<forall>c \<in> set COMMANDS. \<exists>f. tbl c = Some f \<and> layers f = n \<and> origin f = c"
  shows "\<exists>tbl'. instrument e p tbl = (Inr (), tbl') \<and>
           (\<forall>c \<in> set COMMANDS. \<exists>f. tbl' c = Some f \<and> layers f = Suc n \<and> origin f = c)"
proof -
  from assms have "\<forall>c \<in> set COMMANDS. tbl c \<noteq> None" by auto
  from instrument_eq[OF this, of e p] assms show ?thesis by auto
qed

lemma uninstrument_inv:
  assumes "\<forall>c \<in> set COMMANDS. \<exists>f. tbl c = Some f \<and> layers f = n \<and> origin f = c"
  shows "\<forall>c \<in> set COMMANDS. \<exists>f. uninstrument tbl c = Some f \<and> layers f = n - 1 \<and> origin f = c"
  using assms by (auto simp: uninstrument_eq layers_get_wrapped origin_get_wrapped)

lemma run_ops_inv:
  "(\<forall>c \<in> set COMMANDS. \<exists>f. tbl c = Some f \<and> layers f = n \<and> origin f = c) \<Longrightarrow>
   \<exists>tbl'. run_ops e ops tbl = (Inr (), tbl') \<and>
     (\<forall>c \<in> set COMMANDS. \<exists>f. tbl' c = Some f \<and> layers f = depth_after ops n \<and> origin f = c)"
proof (induction ops arbitrary: tbl n)
  case Nil
  then show ?case by simp
next
  case (Cons a ops)
  show ?case
  proof (cases a)
    case (Activate p)
    from instrument_inv[OF Cons.prems, of e p] obtain tbl1 where
      i: "instrument e p tbl = (Inr (), tbl1)" and
      v: "\<forall>c \<in> set COMMANDS. \<exists>f. tbl1 c = Some f \<and> layers f = Suc n \<and> origin f = c"
      by blast
    from Cons.IH[OF v] show ?thesis by (simp add: Activate i)
  next
    case Deactivate
    from Cons.IH[OF uninstrument_inv[OF Cons.prems]] show ?thesis by (simp add: Deactivate)
  qed
qed

lemma Client_inv:
  "\<forall>c \<in> set COMMANDS. \<exists>f. pymemcache_Client c = Some f \<and> layers f = 0 \<and> origin f = c"
  by (simp add: pymemcache_Client_def)

lemma run_ops_Client:
  "\<exists>tbl. run_ops e ops pymemcache_Client = (Inr (), tbl) \<and>
     (\<forall>c \<in> set COMMANDS. \<exists>f. tbl c = Some f \<and> layers f = depth_after ops 0 \<and> origin f = c)"
  by (rule run_ops_inv[OF Client_inv])

lemma depth_after_Activates: "depth_after (map Activate ps @ ops) n = depth_after ops (n + length ps)"
  by (induction ps arbitrary: n) simp_all


lemma get_in_COMMANDS: "''get'' \<in> set COMMANDS"
  by (simp add: COMMANDS_def)

lemma Client_defined: "\<forall>c \<in> set COMMANDS. pymemcache_Client c \<noteq> None"
  by (simp add: pymemcache_Client_def)

lemma instrument_Client:
  "\<exists>tbl1. instrument e p pymemcache_Client = (Inr (), tbl1) \<and>
     (\<forall>c \<in> set COMMANDS. tbl1 c = Some (FunctionWrapper (Function c)
         (get_tracer (global_tracer_provider e) this_module (version e) p) c)) \<and>
     uninstrument tbl1 = pymemcache_Client"
proof -
  let ?t = "get_tracer (global_tracer_provider e) this_module (version e) p"
  let ?tbl1 = "\<lambda>k. if k \<in> set COMMANDS
                   then map_option (\<lambda>f. FunctionWrapper f ?t k) (pymemcache_Client k)
                   else pymemcache_Client k"
  have i: "instrument e p pymemcache_Client = (Inr (), ?tbl1)"
    by (rule instrument_eq[OF Client_defined])
  have a: "\<forall>c \<in> set COMMANDS. ?tbl1 c = Some (FunctionWrapper (Function c) ?t c)"
    by (simp add: pymemcache_Client_def)
  have u: "uninstrument ?tbl1 = pymemcache_Client"
    unfolding uninstrument_eq by (intro ext) (simp add: pymemcache_Client_def)
  from i a u show ?thesis by (intro exI[of _ ?tbl1] conjI)
qed

lemma instrument_twice_Client:
  "\<exists>tbl1 tbl2. instrument e p1 pymemcache_Client = (Inr (), tbl1) \<and>
     instrument e p2 tbl1 = (Inr (), tbl2) \<and>
     (\<forall>c \<in> set COMMANDS.
        tbl2 c = Some (FunctionWrapper (FunctionWrapper (Function c)
           (get_tracer (global_tracer_provider e) this_module (version e) p1) c)
           (get_tracer (global_tracer_provider e) this_module (version e) p2) c) \<and>
        uninstrument tbl2 c = Some (FunctionWrapper (Function c)
           (get_tracer (global_tracer_provider e) this_module (version e) p1) c))"
proof -
  let ?t1 = "get_tracer (global_tracer_provider e) this_module (version e) p1"
  let ?t2 = "get_tracer (global_tracer_provider e) this_module (version e) p2"
  from instrument_Client[of e p1] obtain tbl1 where
    i1: "instrument e p1 pymemcache_Client = (Inr (), tbl1)" and
    a1: "\<forall>c \<in> set COMMANDS. tbl1 c = Some (FunctionWrapper (Function c) ?t1 c)"
    by blast
  let ?tbl2 = "\<lambda>k. if k \<in> set COMMANDS then map_option (\<lambda>f. FunctionWrapper f ?t2 k) (tbl1 k)
                   else tbl1 k"
  from a1 have "\<forall>c \<in> set COMMANDS. tbl1 c \<noteq> None" by simp
  then have i2: "instrument e p2 tbl1 = (Inr (), ?tbl2)" by (rule instrument_eq)
  have a2: "\<forall>c \<in> set COMMANDS.
        ?tbl2 c = Some (FunctionWrapper (FunctionWrapper (Function c) ?t1 c) ?t2 c) \<and>
        uninstrument ?tbl2 c = Some (FunctionWrapper (Function c) ?t1 c)"
    using a1 by (simp add: uninstrument_eq)
  from i1 i2 a2 show ?thesis by (intro exI[of _ tbl1] exI[of _ ?tbl2] conjI)
qed

section \<open>The claims\<close>



text \<open>
  C2. Whatever sequence of activations and deactivations came before, a call of a command
  gives what the client's own method gives on the same instance, positional and keyword
  arguments: the same value, or the same exception.
\<close>

theorem same_outcome_with_or_without_instrumentation:
  assumes "cmd \<in> set COMMANDS"
  shows "\<exists>tbl f.
           run_ops e ops pymemcache_Client = (Inr (), tbl) \<and> tbl cmd = Some f \<and>
           fst (call f e inst args kwargs st) = impl e cmd inst args kwargs"
proof -
  from run_ops_Client[of e ops] assms obtain tbl f where
    "run_ops e ops pymemcache_Client = (Inr (), tbl)" "tbl cmd = Some f" "origin f = cmd"
    by blast
  then show ?thesis using call_result[of f e inst args kwargs st] by simp
qed

theorem same_outcome_with_or_without_instrumentation_witness:
  "''get'' \<in> set COMMANDS \<and>
   (\<exists>tbl f.
      run_ops demo_env [Activate None, Deactivate, Activate None] pymemcache_Client
        = (Inr (), tbl) \<and>
      tbl ''get'' = Some f \<and>
      fst (call f demo_env demo_instance [''k''] () demo_state)
        = impl demo_env ''get'' demo_instance [''k''] ())"
  by (intro conjI get_in_COMMANDS
        same_outcome_with_or_without_instrumentation[OF get_in_COMMANDS])

text \<open>
  C3. When reading the tracer's instrumentation name, rendering the command string or
  computing the connection attributes raises, the \<open>try\<close> block ends with that
  exception and the exception is dropped: the client's method is still called with the
  original arguments, and what the caller gets is what that method gives.
\<close>

theorem attribute_failures_are_swallowed:
  assumes "instrumentation_info t = None \<or> (\<exists>x. get_query_string e args = Inl x)
           \<or> (\<exists>x. get_address_attributes e inst = Inl x)"
  shows "(\<exists>x. fst (populate e t cmd inst args sp0) = Inl x) \<and>
         (\<exists>sp. call (FunctionWrapper (Function f) t cmd) e inst args kwargs st
                 = (impl e f inst args kwargs,
                    (client_in_span e f inst args kwargs st)
                      \<lparr>current := current st,
                       finished := finished (client_in_span e f inst args kwargs st) @ [sp]\<rparr>))"
  by (intro conjI populate_raises[OF assms]
        exI[of _ "recorded_span e t cmd inst args st"] call_single)

theorem attribute_failures_are_swallowed_witness:
  "(instrumentation_info demo_tracer = None
      \<or> (\<exists>x. get_query_string demo_env [[]] = Inl x)
      \<or> (\<exists>x. get_address_attributes demo_env demo_instance = Inl x)) \<and>
   (\<exists>x. fst (populate demo_env demo_tracer ''get'' demo_instance [[]]
               (fst (start_as_current_span CMD INTERNAL Map.empty demo_state))) = Inl x) \<and>
   (\<exists>sp. call (FunctionWrapper (Function ''get'') demo_tracer ''get'') demo_env demo_instance
            [[]] () demo_state
          = (impl demo_env ''get'' demo_instance [[]] (),
             (client_in_span demo_env ''get'' demo_instance [[]] () demo_state)
               \<lparr>current := current demo_state,
                finished :=
                  finished (client_in_span demo_env ''get'' demo_instance [[]] () demo_state)
                  @ [sp]\<rparr>))"
proof -
  have h: "instrumentation_info demo_tracer = None
      \<or> (\<exists>x. get_query_string demo_env [[]] = Inl x)
      \<or> (\<exists>x. get_address_attributes demo_env demo_instance = Inl x)"
    by (simp add: demo_env_def leaf_env_def)
  note w = attribute_failures_are_swallowed
             [OF h, of "''get''"
                "fst (start_as_current_span CMD INTERNAL Map.empty demo_state)"
                "''get''" "()" demo_state]
  show ?thesis by (intro conjI h w[THEN conjunct1] w[THEN conjunct2])
qed

text \<open>
  C4. When the client's method raises, a call through the wrappers raises that same
  exception, and the span the call created has ended and been recorded by then.
\<close>

theorem client_exception_propagates_and_span_ends:
  assumes "hasattr_wrapped c" and "impl e (origin c) inst args kwargs = Inl x"
  shows "\<exists>sp. call c e inst args kwargs st
                 = (Inl x,
                    (client_in_span e (origin c) inst args kwargs st)
                      \<lparr>current := current st,
                       finished := finished (client_in_span e (origin c) inst args kwargs st)
                                    @ [sp]\<rparr>) \<and>
              span_id sp = next_id st \<and> ended sp"
proof -
  from call_wrapped[OF assms(1), of e inst args kwargs st] obtain t cmd where
    "call c e inst args kwargs st
       = (impl e (origin c) inst args kwargs,
          (client_in_span e (origin c) inst args kwargs st)
            \<lparr>current := current st,
             finished := finished (client_in_span e (origin c) inst args kwargs st)
                          @ [recorded_span e t cmd inst args st]\<rparr>)"
    by blast
  then have "call c e inst args kwargs st
       = (Inl x,
          (client_in_span e (origin c) inst args kwargs st)
            \<lparr>current := current st,
             finished := finished (client_in_span e (origin c) inst args kwargs st)
                          @ [recorded_span e t cmd inst args st]\<rparr>)"
    by (simp only: assms(2))
  then show ?thesis
    by (intro exI[of _ "recorded_span e t cmd inst args st"] conjI recorded_span_fixed)
qed

theorem client_exception_propagates_and_span_ends_witness:
  "hasattr_wrapped (FunctionWrapper (Function ''set'') demo_tracer ''set'') \<and>
   impl demo_env (origin (FunctionWrapper (Function ''set'') demo_tracer ''set''))
     demo_instance [''k'', ''v''] () = Inl (Error ''connection refused'') \<and>
   (\<exists>sp. call (FunctionWrapper (Function ''set'') demo_tracer ''set'') demo_env demo_instance
            [''k'', ''v''] () demo_state
          = (Inl (Error ''connection refused''),
             (client_in_span demo_env
                (origin (FunctionWrapper (Function ''set'') demo_tracer ''set''))
                demo_instance [''k'', ''v''] () demo_state)
               \<lparr>current := current demo_state,
                finished :=
                  finished (client_in_span demo_env
                     (origin (FunctionWrapper (Function ''set'') demo_tracer ''set''))
                     demo_instance [''k'', ''v''] () demo_state) @ [sp]\<rparr>) \<and>
          span_id sp = next_id demo_state \<and> ended sp)"
proof -
  have h1: "hasattr_wrapped (FunctionWrapper (Function ''set'') demo_tracer ''set'')" by simp
  have h2: "impl demo_env (origin (FunctionWrapper (Function ''set'') demo_tracer ''set''))
     demo_instance [''k'', ''v''] () = Inl (Error ''connection refused'')"
    by (simp add: demo_env_def leaf_env_def)
  show ?thesis
    by (intro conjI h1 h2 client_exception_propagates_and_span_ends[OF h1 h2])
qed

text \<open>
  C5, as stated, fails: the wrap step does not look at the marker. After two activations
  the method installed for \<open>get\<close> has two wrapping layers.
\<close>

theorem wrap_step_stacks_layers_counterexample:
  "map_option layers
     (snd (run_ops demo_env [Activate None, Activate None] pymemcache_Client) ''get'')
   = Some 2"
proof -
  from instrument_twice_Client[of demo_env None None] obtain tbl1 tbl2 where
    "instrument demo_env None pymemcache_Client = (Inr (), tbl1)"
    "instrument demo_env None tbl1 = (Inr (), tbl2)"
    "\<forall>c \<in> set COMMANDS.
        tbl2 c = Some (FunctionWrapper (FunctionWrapper (Function c)
           (get_tracer (global_tracer_provider demo_env) this_module (version demo_env) None) c)
           (get_tracer (global_tracer_provider demo_env) this_module (version demo_env) None) c) \<and>
        uninstrument tbl2 c = Some (FunctionWrapper (Function c)
           (get_tracer (global_tracer_provider demo_env) this_module (version demo_env) None) c)"
    by blast
  with get_in_COMMANDS show ?thesis by simp
qed

text \<open>
  C5, amended. Every activation adds one wrapping layer to every command, whether or not
  the installed method already carries the marker, so after n activations of the
  unwrapped client n layers are installed. The marker is checked when a wrapper is
  called: however many layers are stacked, one call adds one span to those the client's
  method records itself (and none when no layer is installed).
\<close>

theorem activation_stacks_layers_guard_at_call:
  assumes "cmd \<in> set COMMANDS"
  shows "\<exists>tbl f.
           run_ops e (map Activate ps) pymemcache_Client = (Inr (), tbl) \<and>
           tbl cmd = Some f \<and> layers f = length ps \<and>
           length (finished (snd (call f e inst args kwargs st)))
             = length (finished (if ps = [] then impl_trace e cmd inst args kwargs st
                                 else client_in_span e cmd inst args kwargs st))
               + min 1 (length ps)"
proof -
  from run_ops_Client[of e "map Activate ps"] assms obtain tbl f where
    r: "run_ops e (map Activate ps) pymemcache_Client = (Inr (), tbl)" and
    f: "tbl cmd = Some f" "layers f = depth_after (map Activate ps) 0" "origin f = cmd"
    by blast
  have "depth_after (map Activate ps) 0 = length ps"
    using depth_after_Activates[of ps "[]" 0] by simp
  with f(2) have l: "layers f = length ps" by simp
  have "length (finished (snd (call f e inst args kwargs st)))
          = length (finished (if ps = [] then impl_trace e cmd inst args kwargs st
                              else client_in_span e cmd inst args kwargs st))
            + min 1 (length ps)"
  proof (cases "hasattr_wrapped f")
    case True
    from call_wrapped[OF this, of e inst args kwargs st] f(3) obtain t c where
      "call f e inst args kwargs st
         = (impl e cmd inst args kwargs,
            (client_in_span e cmd inst args kwargs st)
                 \<lparr>current := current st,
                  finished := finished (client_in_span e cmd inst args kwargs st)
                               @ [recorded_span e t c inst args st]\<rparr>)"
      by auto
    moreover from True l have p: "ps \<noteq> []" by (auto simp: hasattr_wrapped_layers)
    then have "min 1 (length ps) = 1" by (cases ps) simp_all
    ultimately show ?thesis using p by simp
  next
    case False
    with l have p: "ps = []" by (simp add: hasattr_wrapped_layers)
    from call_plain[OF False, of e inst args kwargs st] f(3) p show ?thesis by simp
  qed
  with r f(1) l show ?thesis by (intro exI[of _ tbl] exI[of _ f] conjI)
qed

theorem activation_stacks_layers_guard_at_call_witness:
  "''get'' \<in> set COMMANDS \<and>
   (\<exists>tbl f.
      run_ops demo_env (map Activate [None, None, None]) pymemcache_Client = (Inr (), tbl) \<and>
      tbl ''get'' = Some f \<and> layers f = length [None :: tracer_provider option, None, None] \<and>
      length (finished (snd (call f demo_env demo_instance [''k''] () demo_state)))
        = length (finished
            (if [None :: tracer_provider option, None, None] = []
             then impl_trace demo_env ''get'' demo_instance [''k''] () demo_state
             else client_in_span demo_env ''get'' demo_instance [''k''] () demo_state))
          + min 1 (length [None :: tracer_provider option, None, None]))"
  by (intro conjI get_in_COMMANDS activation_stacks_layers_guard_at_call[OF get_in_COMMANDS])




text \<open>
  C7. When the tracer has its instrumentation name, the arguments render to \<open>vals\<close>
  and the connection attributes do not use the key of the command string, the span's
  command-string attribute is the command name alone when \<open>vals\<close> is empty, and the
  command name, one space and \<open>vals\<close> otherwise.
\<close>

theorem command_string_attribute:
  assumes "instrumentation_info t = Some info"
      and "get_query_string e args = Inr vals"
      and "\<forall>items. get_address_attributes e inst = Inr items \<longrightarrow> RAWCMD \<notin> fst ` set items"
  shows "\<exists>sp. call (FunctionWrapper (Function f) t cmd) e inst args kwargs st
                 = (impl e f inst args kwargs,
                    (client_in_span e f inst args kwargs st)
                 \<lparr>current := current st,
                  finished := finished (client_in_span e f inst args kwargs st)
                               @ [sp]\<rparr>) \<and>
              attributes sp RAWCMD
                 = Some (AStr (if vals = [] then cmd else cmd @ '' '' @ vals))"
proof -
  have "attributes (recorded_span e t cmd inst args st) RAWCMD
          = Some (AStr (if vals = [] then cmd else cmd @ '' '' @ vals))"
    unfolding recorded_span_attributes
    using populate_attributes[OF assms(1) assms(3), of cmd args] assms(2)
    by simp
  then show ?thesis
    by (intro exI[of _ "recorded_span e t cmd inst args st"] conjI call_single)
qed

theorem command_string_attribute_witness:
  "instrumentation_info demo_tracer = Some (InstrumentationInfo this_module ''0.9.dev0'') \<and>
   get_query_string demo_env [''k''] = Inr ''k'' \<and>
   get_address_attributes demo_env demo_instance
     = Inr [(''net.peer.name'', AStr ''localhost''), (''net.peer.port'', AInt 11211)] \<and>
   RAWCMD \<notin> fst ` set [(''net.peer.name'', AStr ''localhost''), (''net.peer.port'', AInt 11211)] \<and>
   (\<exists>sp. call (FunctionWrapper (Function ''get'') demo_tracer ''get'') demo_env demo_instance
            [''k''] () demo_state
          = (impl demo_env ''get'' demo_instance [''k''] (),
             (client_in_span demo_env ''get'' demo_instance [''k''] () demo_state)
                 \<lparr>current := current demo_state,
                  finished := finished (client_in_span demo_env ''get'' demo_instance [''k''] () demo_state)
                               @ [sp]\<rparr>) \<and>
          attributes sp RAWCMD = Some (AStr ''get k''))"
proof -
  have h1: "instrumentation_info demo_tracer = Some (InstrumentationInfo this_module ''0.9.dev0'')"
    by (simp add: demo_tracer_def sdk_provider_def)
  have h2: "get_query_string demo_env [''k''] = Inr ''k''"
    by (simp add: demo_env_def leaf_env_def)
  have h3: "\<forall>items. get_address_attributes demo_env demo_instance = Inr items
              \<longrightarrow> RAWCMD \<notin> fst ` set items"
    by (auto simp: demo_env_def leaf_env_def demo_instance_def RAWCMD_def)
  from command_string_attribute[OF h1 h2 h3, of "''get''" "''get''" "()" demo_state]
  have "\<exists>sp. call (FunctionWrapper (Function ''get'') demo_tracer ''get'') demo_env demo_instance
            [''k''] () demo_state
          = (impl demo_env ''get'' demo_instance [''k''] (),
             (client_in_span demo_env ''get'' demo_instance [''k''] () demo_state)
                 \<lparr>current := current demo_state,
                  finished := finished (client_in_span demo_env ''get'' demo_instance [''k''] () demo_state)
                               @ [sp]\<rparr>) \<and>
          attributes sp RAWCMD = Some (AStr ''get k'')"
    by simp
  moreover have "get_address_attributes demo_env demo_instance
     = Inr [(''net.peer.name'', AStr ''localhost''), (''net.peer.port'', AInt 11211)]"
    by (simp add: demo_env_def leaf_env_def demo_instance_def)
  moreover have
    "RAWCMD \<notin> fst ` set [(''net.peer.name'', AStr ''localhost''), (''net.peer.port'', AInt 11211)]"
    by (simp add: RAWCMD_def)
  ultimately show ?thesis using h1 h2 by (intro conjI)
qed

text \<open>
  C8. The span created by a wrapper around a callable without the marker has kind
  \<open>INTERNAL\<close> and the name \<open>CMD\<close>, whatever the command. It starts without
  attributes: its attributes at the end are among the service key, the command-string key
  and the keys of the connection attributes, and there are none at all when the
  population stops at its first step.
\<close>

theorem span_kind_name_and_initial_attributes:
  "\<exists>sp. call (FunctionWrapper (Function f) t cmd) e inst args kwargs st
            = (impl e f inst args kwargs,
               (client_in_span e f inst args kwargs st)
                 \<lparr>current := current st,
                  finished := finished (client_in_span e f inst args kwargs st)
                               @ [sp]\<rparr>) \<and>
         kind sp = INTERNAL \<and> span_name sp = CMD \<and>
         dom (attributes sp)
           \<subseteq> {''service'', RAWCMD}
               \<union> (case get_address_attributes e inst of
                     Inl x \<Rightarrow> {}
                   | Inr items \<Rightarrow> fst ` set items) \<and>
         (instrumentation_info t = None \<longrightarrow> attributes sp = Map.empty)"
proof -
  let ?sp0 = "\<lparr>span_id = next_id st, parent_id = current st, span_name = CMD, kind = INTERNAL,
               attributes = Map.empty, ended = False\<rparr>"
  have d: "dom (attributes (recorded_span e t cmd inst args st))
             \<subseteq> {''service'', RAWCMD}
                 \<union> (case get_address_attributes e inst of
                       Inl x \<Rightarrow> {}
                     | Inr items \<Rightarrow> fst ` set items)"
    unfolding recorded_span_attributes
    using populate_dom[of e t cmd inst args ?sp0] by simp
  have n: "instrumentation_info t = None \<longrightarrow>
             attributes (recorded_span e t cmd inst args st) = Map.empty"
    unfolding recorded_span_attributes by (simp add: populate_no_info)
  show ?thesis
    by (intro exI[of _ "recorded_span e t cmd inst args st"] conjI call_single d n
          recorded_span_fixed)
qed

theorem span_kind_name_and_initial_attributes_witness:
  "instrumentation_info (bare_provider this_module ''0.9.dev0'') = None \<and>
   (\<exists>sp. call (FunctionWrapper (Function ''get'') (bare_provider this_module ''0.9.dev0'') ''get'')
            demo_env demo_instance [''k''] () demo_state
          = (impl demo_env ''get'' demo_instance [''k''] (),
             (client_in_span demo_env ''get'' demo_instance [''k''] () demo_state)
                 \<lparr>current := current demo_state,
                  finished := finished (client_in_span demo_env ''get'' demo_instance [''k''] () demo_state)
                               @ [sp]\<rparr>) \<and>
          kind sp = INTERNAL \<and> span_name sp = CMD \<and> attributes sp = Map.empty)"
proof -
  have h: "instrumentation_info (bare_provider this_module ''0.9.dev0'') = None"
    by (simp add: bare_provider_def)
  from span_kind_name_and_initial_attributes
         [of "''get''" "bare_provider this_module ''0.9.dev0''" "''get''" demo_env demo_instance
             "[''k'']" "()" demo_state]
  obtain sp where
    "call (FunctionWrapper (Function ''get'') (bare_provider this_module ''0.9.dev0'') ''get'')
            demo_env demo_instance [''k''] () demo_state
          = (impl demo_env ''get'' demo_instance [''k''] (),
             (client_in_span demo_env ''get'' demo_instance [''k''] () demo_state)
                 \<lparr>current := current demo_state,
                  finished := finished (client_in_span demo_env ''get'' demo_instance [''k''] () demo_state)
                               @ [sp]\<rparr>)"
    "kind sp = INTERNAL" "span_name sp = CMD"
    "instrumentation_info (bare_provider this_module ''0.9.dev0'') = None
       \<longrightarrow> attributes sp = Map.empty"
    by (elim exE conjE)
  with h show ?thesis by (intro conjI exI[of _ sp]) simp_all
qed



text \<open>
  C10. For a call that reaches the attribute population with a tracer that has its
  instrumentation name, and connection attributes that use neither key: the span is
  named \<open>memcached.command\<close>, its \<open>service\<close> attribute is the instrumentation name
  of the tracer, and when the arguments render, the command string is stored under
  \<open>db.statement\<close>.
\<close>

theorem telemetry_names:
  assumes "instrumentation_info t = Some info"
      and "\<forall>items. get_address_attributes e inst = Inr items \<longrightarrow>
             ''service'' \<notin> fst ` set items \<and> ''db.statement'' \<notin> fst ` set items"
  shows "\<exists>sp. call (FunctionWrapper (Function f) t cmd) e inst args kwargs st
                 = (impl e f inst args kwargs,
                    (client_in_span e f inst args kwargs st)
                 \<lparr>current := current st,
                  finished := finished (client_in_span e f inst args kwargs st)
                               @ [sp]\<rparr>) \<and>
              span_name sp = ''memcached.command'' \<and>
              attributes sp ''service'' = Some (AStr (info_name info)) \<and>
              (\<forall>vals. get_query_string e args = Inr vals \<longrightarrow>
                 attributes sp ''db.statement''
                   = Some (AStr (cmd @ (if vals \<noteq> [] then '' '' else []) @ vals)))"
proof -
  from assms(2) have
    a: "\<forall>items. get_address_attributes e inst = Inr items \<longrightarrow> ''service'' \<notin> fst ` set items" and
    b: "\<forall>items. get_address_attributes e inst = Inr items \<longrightarrow> RAWCMD \<notin> fst ` set items"
    by (simp_all add: RAWCMD_def)
  have s: "attributes (recorded_span e t cmd inst args st) ''service'' = Some (AStr (info_name info))"
    unfolding recorded_span_attributes
    using populate_attributes[OF assms(1) a, of cmd args]
    by (simp add: RAWCMD_def split: sum.splits)
  have q: "\<forall>vals. get_query_string e args = Inr vals \<longrightarrow>
             attributes (recorded_span e t cmd inst args st) ''db.statement''
               = Some (AStr (cmd @ (if vals \<noteq> [] then '' '' else []) @ vals))"
    unfolding recorded_span_attributes
    using populate_attributes[OF assms(1) b, of cmd args]
    by (simp add: RAWCMD_def)
  have n: "span_name (recorded_span e t cmd inst args st) = ''memcached.command''"
    by (simp add: recorded_span_fixed CMD_def)
  show ?thesis
    by (intro exI[of _ "recorded_span e t cmd inst args st"] conjI call_single s q n)
qed

theorem telemetry_names_witness:
  "instrumentation_info demo_tracer = Some (InstrumentationInfo this_module ''0.9.dev0'') \<and>
   get_address_attributes demo_env demo_instance
     = Inr [(''net.peer.name'', AStr ''localhost''), (''net.peer.port'', AInt 11211)] \<and>
   ''service'' \<notin> fst ` set [(''net.peer.name'', AStr ''localhost''), (''net.peer.port'', AInt 11211)] \<and>
   ''db.statement'' \<notin> fst ` set [(''net.peer.name'', AStr ''localhost''), (''net.peer.port'', AInt 11211)] \<and>
   get_query_string demo_env [] = Inr [] \<and>
   (\<exists>sp. call (FunctionWrapper (Function ''version'') demo_tracer ''version'') demo_env
            demo_instance [] () demo_state
          = (impl demo_env ''version'' demo_instance [] (),
             (client_in_span demo_env ''version'' demo_instance [] () demo_state)
                 \<lparr>current := current demo_state,
                  finished := finished (client_in_span demo_env ''version'' demo_instance [] () demo_state)
                               @ [sp]\<rparr>) \<and>
          span_name sp = ''memcached.command'' \<and>
          attributes sp ''service'' = Some (AStr ''opentelemetry.ext.pymemcache'') \<and>
          attributes sp ''db.statement'' = Some (AStr ''version''))"
proof -
  have h1: "instrumentation_info demo_tracer = Some (InstrumentationInfo this_module ''0.9.dev0'')"
    by (simp add: demo_tracer_def sdk_provider_def)
  have h2: "\<forall>items. get_address_attributes demo_env demo_instance = Inr items \<longrightarrow>
      ''service'' \<notin> fst ` set items \<and> ''db.statement'' \<notin> fst ` set items"
    by (auto simp: demo_env_def leaf_env_def demo_instance_def)
  have h3: "get_query_string demo_env [] = Inr []"
    by (simp add: demo_env_def leaf_env_def)
  from telemetry_names[OF h1 h2, of "''version''" "''version''" "[]" "()" demo_state]
  obtain sp where
    c: "call (FunctionWrapper (Function ''version'') demo_tracer ''version'') demo_env
            demo_instance [] () demo_state
          = (impl demo_env ''version'' demo_instance [] (),
             (client_in_span demo_env ''version'' demo_instance [] () demo_state)
                 \<lparr>current := current demo_state,
                  finished := finished (client_in_span demo_env ''version'' demo_instance [] () demo_state)
                               @ [sp]\<rparr>)" and
    n: "span_name sp = ''memcached.command''" and
    s: "attributes sp ''service'' = Some (AStr (info_name (InstrumentationInfo this_module ''0.9.dev0'')))" and
    q: "\<forall>vals. get_query_string demo_env [] = Inr vals \<longrightarrow>
          attributes sp ''db.statement''
            = Some (AStr (''version'' @ (if vals \<noteq> [] then '' '' else []) @ vals))"
    by (elim exE conjE)
  from s have s': "attributes sp ''service'' = Some (AStr ''opentelemetry.ext.pymemcache'')"
    by (simp add: this_module_def)
  from q h3 have q': "attributes sp ''db.statement'' = Some (AStr ''version'')" by simp
  have g1: "get_address_attributes demo_env demo_instance
     = Inr [(''net.peer.name'', AStr ''localhost''), (''net.peer.port'', AInt 11211)]"
    by (simp add: demo_env_def leaf_env_def demo_instance_def)
  have g2: "''service'' \<notin> fst ` set [(''net.peer.name'', AStr ''localhost''), (''net.peer.port'', AInt 11211)]"
    by simp
  have g3: "''db.statement'' \<notin> fst ` set [(''net.peer.name'', AStr ''localhost''), (''net.peer.port'', AInt 11211)]"
    by simp
  show ?thesis by (intro conjI exI[of _ sp] h1 g1 g2 g3 h3 c n s' q')
qed

end
